theory Spec2Isabelle
  imports Main
begin

section \<open>Values, exceptions and the outside world\<close>

text \<open>
  Python values as far as the program handles them: the arguments of a function call
  requested by the model, the decoded JSON body of an HTTP response, the fields of an
  outgoing JSON payload. The program never computes on numbers, so they are kept as
  integers.
\<close>

datatype pyval =
    PNone
  | PBool bool
  | PNum int
  | PStr string
  | PList "pyval list"
  | PDict "(string \<times> pyval) list"

type_synonym pydict = "(string \<times> pyval) list"

text \<open>\<open>d.get(k)\<close> and \<open>d.get(k, default)\<close> of a Python dict.\<close>

definition dict_get :: "pydict \<Rightarrow> string \<Rightarrow> pyval" where
  "dict_get d k = (case map_of d k of None \<Rightarrow> PNone | Some v \<Rightarrow> v)"

definition dict_get_default :: "pydict \<Rightarrow> string \<Rightarrow> pyval \<Rightarrow> pyval" where
  "dict_get_default d k dflt = (case map_of d k of None \<Rightarrow> dflt | Some v \<Rightarrow> v)"

text \<open>
  The exceptions of \<open>template_exchange_client.py\<close>. \<open>TemplateNotFoundError\<close> and
  \<open>TemplateAuthenticationError\<close> are subclasses of \<open>TemplateAPIError\<close>; every other
  exception (of \<open>requests\<close>, of the JSON decoder, of the model's library, an
  \<open>IndexError\<close>) is a \<open>PyException\<close>. Each carries its message, which is what \<open>str(e)\<close>
  returns.
\<close>

datatype exn =
    TemplateAPIError string
  | TemplateNotFoundError string
  | TemplateAuthenticationError string
  | PyException string

fun exn_str :: "exn \<Rightarrow> string" where
  "exn_str (TemplateAPIError m) = m"
| "exn_str (TemplateNotFoundError m) = m"
| "exn_str (TemplateAuthenticationError m) = m"
| "exn_str (PyException m) = m"

text \<open>The two calls of the \<open>requests\<close> library that the client makes.\<close>

datatype http_request =
    GET (url: string) (headers: "(string \<times> string) list") (params: pydict)
  | POST (url: string) (headers: "(string \<times> string) list") (json_payload: pydict)

text \<open>
  An HTTP response: \<open>response.status_code\<close>, \<open>response.text\<close> and what
  \<open>response.json()\<close> decodes (\<open>None\<close> when the body is not JSON and the decoder raises,
  with the message \<open>json_error\<close>).
\<close>

record http_response =
  status_code :: int
  resp_text :: string
  resp_json :: "pyval option"
  json_error :: string

definition response_json :: "http_response \<Rightarrow> exn + pyval" where
  "response_json r =
     (case resp_json r of
        None \<Rightarrow> Inl (PyException (json_error r))
      | Some v \<Rightarrow> Inr v)"

text \<open>
  A part of the model's reply. The code looks at a part through \<open>hasattr\<close>, so each of
  the two attributes it reads is optional (\<open>None\<close>: the part has no such attribute).
\<close>

datatype function_call = FunctionCall (fc_name: string) (fc_args: pydict)

datatype part = Part (part_text: "string option") (part_function_call: "function_call option")

text \<open>
  The model's reply: \<open>response.candidates\<close>, each candidate given by its
  \<open>content.parts\<close>, and the \<open>text\<close> attribute of the reply: absent (\<open>hasattr\<close> is false),
  an accessor that raises, or a string.
\<close>

record response =
  candidates :: "part list list"
  text_attr :: "(exn + string) option"

text \<open>What \<open>chat.send_message\<close> is given: the user's prompt or a \<open>FunctionResponse\<close> part.\<close>

datatype message =
    UserText string
  | FunctionResponse string pydict

text \<open>
  Everything outside the repository is a parameter: the configuration values of
  \<open>config_loader\<close>, Python's rendering of a value inside an f-string, the remote template
  service (answering a request, given the requests made before, with a response or with a
  transport failure of \<open>requests\<close>) and the Gemini model (answering the messages sent so
  far in the \<open>k\<close>-th chat with a reply or with an exception).
\<close>

record env =
  GEMINI_API_KEY :: string
  TEMPLATE_EXCHANGE_API_KEY :: string
  TEMPLATE_EXCHANGE_API_BASE_URL :: string
  fmt :: "pyval \<Rightarrow> string"
  http :: "http_request list \<Rightarrow> http_request \<Rightarrow> string + http_response"
  model :: "nat \<Rightarrow> message list \<Rightarrow> exn + response"

text \<open>
  The state the program changes: the messages sent in the current chat, the HTTP requests
  made so far and what was written to standard output.
\<close>

record world =
  chat :: "message list"
  requests :: "http_request list"
  stdout :: "string list"

section \<open>Decimal rendering of a status code\<close>

definition digit_char :: "nat \<Rightarrow> char" where
  "digit_char d = ''0123456789'' ! d"

fun nat_str :: "nat \<Rightarrow> string" where
  "nat_str n = (if n < 10 then [digit_char n] else nat_str (n div 10) @ [digit_char (n mod 10)])"

definition int_str :: "int \<Rightarrow> string" where
  "int_str i = (if i < 0 then CHR ''-'' # nat_str (nat (- i)) else nat_str (nat i))"

section \<open>template_exchange_client.py\<close>

definition send_request :: "env \<Rightarrow> http_request list \<Rightarrow> http_request \<Rightarrow> (exn + http_response) \<times> http_request list" where
  "send_request E log req =
     (case http E log req of
        Inl failure \<Rightarrow> (Inl (PyException failure), log @ [req])
      | Inr r \<Rightarrow> (Inr r, log @ [req]))"

definition get_template :: "env \<Rightarrow> http_request list \<Rightarrow> pyval \<Rightarrow> pyval \<Rightarrow> (exn + pyval) \<times> http_request list" where
  "get_template E log session_id template_type =
     (let url = TEMPLATE_EXCHANGE_API_BASE_URL E @ ''/api/templates/'' @ fmt E session_id;
          headers = [(''x-api-key'', TEMPLATE_EXCHANGE_API_KEY E)];
          params = [(''type'', template_type)]
      in case send_request E log (GET url headers params) of
           (Inl e, log') \<Rightarrow> (Inl e, log')
         | (Inr r, log') \<Rightarrow>
             (if status_code r = 200 then response_json r
              else if status_code r = 404 then
                Inl (TemplateNotFoundError
                       (''No '' @ fmt E template_type @ '' template found for session '' @ fmt E session_id))
              else if status_code r = 401 then
                Inl (TemplateAuthenticationError ''Authentication failed. Check API key.'')
              else
                Inl (TemplateAPIError
                       (''API request failed with status '' @ int_str (status_code r) @ '': '' @ resp_text r)),
              log'))"

definition create_template ::
  "env \<Rightarrow> http_request list \<Rightarrow> pyval \<Rightarrow> pyval \<Rightarrow> pyval \<Rightarrow> pyval \<Rightarrow> pyval \<Rightarrow> (exn + pyval) \<times> http_request list" where
  "create_template E log session_id template_type content status metadata =
     (let url = TEMPLATE_EXCHANGE_API_BASE_URL E @ ''/api/templates'';
          headers = [(''x-api-key'', TEMPLATE_EXCHANGE_API_KEY E), (''Content-Type'', ''application/json'')];
          payload = [(''sessionId'', session_id), (''type'', template_type),
                     (''content'', content), (''status'', status)];
          payload = (if metadata \<noteq> PNone then payload @ [(''metadata'', metadata)] else payload)
      in case send_request E log (POST url headers payload) of
           (Inl e, log') \<Rightarrow> (Inl e, log')
         | (Inr r, log') \<Rightarrow>
             (if status_code r = 201 then response_json r
              else if status_code r = 401 then
                Inl (TemplateAuthenticationError ''Authentication failed. Check API key.'')
              else
                Inl (TemplateAPIError
                       (''API request failed with status '' @ int_str (status_code r) @ '': '' @ resp_text r)),
              log'))"

section \<open>gemini_interaction.py\<close>

definition newline :: char where
  "newline = CHR 0x0A"

text \<open>\<open>print(s)\<close>: the text and a newline go to standard output.\<close>

definition print :: "world \<Rightarrow> string \<Rightarrow> world" where
  "print w s = w\<lparr>stdout := stdout w @ [s @ [newline]]\<rparr>"

text \<open>
  The condition of the \<open>while\<close> loop of \<open>respond_to_prompt\<close> and, where it holds, the
  function call the body reads from the first part. \<open>response.candidates[0]\<close> raises
  \<open>IndexError\<close> on a reply without candidates; parts, attribute and name are tested for
  truth in this order.
\<close>

definition requested_call :: "response \<Rightarrow> exn + function_call option" where
  "requested_call r =
     (case candidates r of
        [] \<Rightarrow> Inl (PyException ''list index out of range'')
      | parts # _ \<Rightarrow>
          (case parts of
             [] \<Rightarrow> Inr None
           | p # _ \<Rightarrow>
               (case part_function_call p of
                  None \<Rightarrow> Inr None
                | Some fc \<Rightarrow> if fc_name fc \<noteq> [] then Inr (Some fc) else Inr None)))"

text \<open>
  The body of the loop between reading the call and answering the model: the
  \<open>if\<close>/\<open>elif\<close>/\<open>else\<close> on the function's name, with the \<open>except\<close> clauses of each branch
  in the order of the source (so that in the \<open>create_template\<close> branch a
  \<open>TemplateNotFoundError\<close> would be caught as the \<open>TemplateAPIError\<close> it is). The result is
  \<open>function_response_content\<close>.
\<close>

definition dispatch :: "env \<Rightarrow> world \<Rightarrow> string \<Rightarrow> pydict \<Rightarrow> pydict \<times> world" where
  "dispatch E w function_name args =
     (if function_name = ''get_template'' then
        (let session_id = dict_get args ''session_id'';
             template_type = dict_get_default args ''template_type'' (PStr ''handoff'')
         in case get_template E (requests w) session_id template_type of
              (Inr api_response_data, log') \<Rightarrow>
                ([(''result'', api_response_data)], w\<lparr>requests := log'\<rparr>)
            | (Inl (TemplateNotFoundError m), log') \<Rightarrow>
                ([(''error'', PStr m), (''type'', PStr ''TemplateNotFound'')], w\<lparr>requests := log'\<rparr>)
            | (Inl (TemplateAuthenticationError m), log') \<Rightarrow>
                ([(''error'', PStr m), (''type'', PStr ''AuthenticationError'')], w\<lparr>requests := log'\<rparr>)
            | (Inl (TemplateAPIError m), log') \<Rightarrow>
                ([(''error'', PStr m), (''type'', PStr ''APIFailure'')], w\<lparr>requests := log'\<rparr>)
            | (Inl (PyException m), log') \<Rightarrow>
                ([(''error'', PStr (''Unexpected error calling get_template: '' @ m)),
                  (''type'', PStr ''ClientExecutionError'')], w\<lparr>requests := log'\<rparr>))
      else if function_name = ''create_template'' then
        (let session_id = dict_get args ''session_id'';
             template_type = dict_get args ''template_type'';
             content = dict_get args ''content'';
             status = dict_get_default args ''status'' (PStr ''draft'');
             metadata = dict_get args ''metadata''
         in case create_template E (requests w) session_id template_type content status metadata of
              (Inr api_response_data, log') \<Rightarrow>
                ([(''result'', api_response_data)], w\<lparr>requests := log'\<rparr>)
            | (Inl (TemplateAuthenticationError m), log') \<Rightarrow>
                ([(''error'', PStr m), (''type'', PStr ''AuthenticationError'')], w\<lparr>requests := log'\<rparr>)
            | (Inl (TemplateAPIError m), log') \<Rightarrow>
                ([(''error'', PStr m), (''type'', PStr ''APIFailure'')], w\<lparr>requests := log'\<rparr>)
            | (Inl (TemplateNotFoundError m), log') \<Rightarrow>
                ([(''error'', PStr m), (''type'', PStr ''APIFailure'')], w\<lparr>requests := log'\<rparr>)
            | (Inl (PyException m), log') \<Rightarrow>
                ([(''error'', PStr (''Unexpected error calling create_template: '' @ m)),
                  (''type'', PStr ''ClientExecutionError'')], w\<lparr>requests := log'\<rparr>))
      else
        ([(''error'', PStr (''Function '' @ function_name @ '' is not implemented or recognized.''))],
         print w (''Error: Model requested unknown function: '' @ function_name)))"

text \<open>
  \<open>chat.send_message\<close>: the message joins the chat and the model answers, or the call
  raises.
\<close>

definition send_message :: "env \<Rightarrow> nat \<Rightarrow> world \<Rightarrow> message \<Rightarrow> (exn + response) \<times> world" where
  "send_message E k w msg = (model E k (chat w @ [msg]), w\<lparr>chat := chat w @ [msg]\<rparr>)"

text \<open>
  The text returned after the loop. \<open>response.parts\<close> is the library's accessor of
  \<open>response.candidates[0].content.parts\<close>, which the loop's condition has read before.
  \<open>hasattr(response, 'text')\<close> is false when the attribute is absent and lets any other
  exception of the accessor through.
\<close>

definition fallback_text :: string where
  "fallback_text = ''Model did not provide a final text response after handling potential function calls.''"

definition final_text :: "response \<Rightarrow> exn + string" where
  "final_text r =
     (let parts = (case candidates r of [] \<Rightarrow> [] | ps # _ \<Rightarrow> ps)
      in if parts \<noteq> [] then
           Inr (concat (map (\<lambda>p. case part_text p of None \<Rightarrow> [] | Some t \<Rightarrow> t)
                            (filter (\<lambda>p. part_text p \<noteq> None) parts)))
         else
           (case text_attr r of
              None \<Rightarrow> Inr fallback_text
            | Some (Inl e) \<Rightarrow> Inl e
            | Some (Inr t) \<Rightarrow> if t \<noteq> [] then Inr t else Inr fallback_text))"

text \<open>
  The \<open>while\<close> loop with what follows it. Nothing bounds the number of rounds, so the
  loop is a partial function: \<open>None\<close> is the run that never ends.
\<close>

partial_function (option) respond_loop ::
  "env \<Rightarrow> nat \<Rightarrow> world \<Rightarrow> response \<Rightarrow> ((exn + string) \<times> world) option" where
  "respond_loop E k w r =
     (case requested_call r of
        Inl e \<Rightarrow> Some (Inl e, w)
      | Inr None \<Rightarrow> Some (final_text r, w)
      | Inr (Some function_call) \<Rightarrow>
          (case dispatch E
                  (print w (''Gemini requested to call function: '' @ fc_name function_call
                            @ '' with args: '' @ fmt E (PDict (fc_args function_call))))
                  (fc_name function_call) (fc_args function_call) of
             (function_response_content, w') \<Rightarrow>
               (case send_message E k w' (FunctionResponse (fc_name function_call) function_response_content) of
                  (Inl e, w'') \<Rightarrow> Some (Inl e, w'')
                | (Inr r', w'') \<Rightarrow> respond_loop E k w'' r')))"

text \<open>
  \<open>respond_to_prompt\<close> in the \<open>k\<close>-th chat: a new chat, the prompt, the loop; the outer
  \<open>except\<close> prints any exception and raises it again.
\<close>

definition respond_to_prompt :: "env \<Rightarrow> nat \<Rightarrow> world \<Rightarrow> string \<Rightarrow> ((exn + string) \<times> world) option" where
  "respond_to_prompt E k w user_prompt =
     (case (case send_message E k (w\<lparr>chat := []\<rparr>) (UserText user_prompt) of
              (Inl e, w') \<Rightarrow> Some (Inl e, w')
            | (Inr r, w') \<Rightarrow> respond_loop E k w' r) of
        None \<Rightarrow> None
      | Some (Inl e, w') \<Rightarrow> Some (Inl e, print w' (''Error in respond_to_prompt: '' @ exn_str e))
      | Some (Inr t, w') \<Rightarrow> Some (Inr t, w'))"


section \<open>main.py\<close>

text \<open>
  \<open>str.strip()\<close> and \<open>str.lower()\<close>, with the characters of a string read as code points
  below 256.
\<close>

definition is_space :: "char \<Rightarrow> bool" where
  "is_space c = (let n = (of_char c :: nat) in (9 \<le> n \<and> n \<le> 13) \<or> (28 \<le> n \<and> n \<le> 32) \<or> n = 133 \<or> n = 160)"

definition strip :: "string \<Rightarrow> string" where
  "strip s = rev (dropWhile is_space (rev (dropWhile is_space s)))"

definition lower_char :: "char \<Rightarrow> char" where
  "lower_char c =
     (let n = (of_char c :: nat)
      in if (65 \<le> n \<and> n \<le> 90) \<or> (192 \<le> n \<and> n \<le> 222 \<and> n \<noteq> 215) then char_of (n + 32) else c)"

definition lower :: "string \<Rightarrow> string" where
  "lower s = map lower_char s"

text \<open>\<open>input(prompt)\<close> writes the prompt without a newline.\<close>

definition write_out :: "world \<Rightarrow> string \<Rightarrow> world" where
  "write_out w s = w\<lparr>stdout := stdout w @ [s]\<rparr>"

text \<open>
  The \<open>while True\<close> loop of \<open>main\<close> on the lines that standard input still holds; at the
  end of input \<open>input\<close> raises \<open>EOFError\<close>. \<open>k\<close> counts the chats started so far. An
  interaction that never returns leaves the shell without a final state (\<open>None\<close>). The
  interrupt signal is not part of the model.
\<close>

fun main_loop :: "env \<Rightarrow> nat \<Rightarrow> world \<Rightarrow> string list \<Rightarrow> world option" where
  "main_loop E k w [] =
     Some (print (write_out w ''CKA Prompt: '') (newline # ''Exiting CK Assistant. Goodbye!''))"
| "main_loop E k w (line # rest) =
     (let w1 = write_out w ''CKA Prompt: '';
          user_input = strip line
      in if user_input = [] then main_loop E k w1 rest
         else if lower user_input \<in> set [''quit'', ''exit''] then
           Some (print w1 ''Exiting CK Assistant. Goodbye!'')
         else
           (case respond_to_prompt E k (print w1 (newline # ''CKA is thinking...'')) user_input of
              None \<Rightarrow> None
            | Some (Inr response_text, w2) \<Rightarrow>
                main_loop E (Suc k)
                  (print (print (print (print (print w2
                     (newline # ''CKA Response:''))
                     (replicate 15 CHR ''-''))
                     response_text)
                     (replicate 15 CHR ''-''))
                     [newline])
                  rest
            | Some (Inl e, w2) \<Rightarrow>
                main_loop E (Suc k)
                  (print (print w2
                     (newline # ''An unexpected error occurred during interaction: '' @ exn_str e))
                     (''Please try again or type 'quit' to exit.'' @ [newline]))
                  rest))"

text \<open>
  \<open>main\<close>: the banner, the check of the configuration, the loop. \<open>config_loader\<close> has
  the attribute once it is imported, so only the empty key is left of the check.
\<close>

definition main :: "env \<Rightarrow> world \<Rightarrow> string list \<Rightarrow> world option" where
  "main E w stdin =
     (let w1 = print (print (print (print w
                 ''Welcome to CK Assistant (Alpha v0.1)'')
                 ''Powered by Google Gemini'')
                 ''Type 'quit' or 'exit' to leave.'')
                 (replicate 30 CHR ''-'')
      in if GEMINI_API_KEY E = [] then
           Some (print (print w1
             ''FATAL CONFIGURATION ERROR: GEMINI_API_KEY is not set in the environment or .env file.'')
             ''Please ensure your .env file is correctly set up in ck_assistant_py/.env'')
         else main_loop E 0 (print w1 ''Configuration loaded successfully.'') stdin)"

section \<open>The specification's vocabulary\<close>

text \<open>
  The specification speaks of a \<open>ToolResult\<close>, a success with its payload or a failure
  with a message and one of five kinds, where the code builds the dictionary
  \<open>function_response_content\<close>. The two are related below, so that the claims about
  tool results can be stated on what the code builds.
\<close>

datatype failure_kind = NotFound | AuthenticationFailed | RemoteError | UnknownTool | ClientExecutionError

datatype ToolResult = Success pyval | Failure string failure_kind

text \<open>
  The \<open>ToolResult\<close> that a \<open>function_response_content\<close> stands for: a \<open>result\<close> entry is
  a success; an \<open>error\<close> entry is a failure, of the kind its \<open>type\<close> entry names, and
  the failure without a \<open>type\<close> entry is the one of a function the code does not know.
\<close>

definition tool_result_of :: "pydict \<Rightarrow> ToolResult option" where
  "tool_result_of c =
     (case map_of c ''result'' of
        Some payload \<Rightarrow> Some (Success payload)
      | None \<Rightarrow>
          (case map_of c ''error'' of
             Some (PStr m) \<Rightarrow>
               (case map_of c ''type'' of
                  None \<Rightarrow> Some (Failure m UnknownTool)
                | Some (PStr t) \<Rightarrow>
                    (if t = ''TemplateNotFound'' then Some (Failure m NotFound)
                     else if t = ''AuthenticationError'' then Some (Failure m AuthenticationFailed)
                     else if t = ''APIFailure'' then Some (Failure m RemoteError)
                     else if t = ''ClientExecutionError'' then Some (Failure m ClientExecutionError)
                     else None)
                | Some _ \<Rightarrow> None)
           | _ \<Rightarrow> None))"

text \<open>
  The wrapping of the client's outcome in the specification's words (section 4.2):
  success is \<open>Success\<close> with the payload, a failure of the client is a \<open>Failure\<close> with its
  message and its own kind, any other failure is a \<open>Failure\<close> of kind
  \<open>ClientExecutionError\<close> (the specification leaves its message open; it is the one the
  code builds).
\<close>

fun spec_wrap :: "string \<Rightarrow> exn + pyval \<Rightarrow> ToolResult" where
  "spec_wrap function_name (Inr payload) = Success payload"
| "spec_wrap function_name (Inl (TemplateNotFoundError m)) = Failure m NotFound"
| "spec_wrap function_name (Inl (TemplateAuthenticationError m)) = Failure m AuthenticationFailed"
| "spec_wrap function_name (Inl (TemplateAPIError m)) = Failure m RemoteError"
| "spec_wrap function_name (Inl (PyException m)) =
     Failure (''Unexpected error calling '' @ function_name @ '': '' @ m) ClientExecutionError"

section \<open>Example environments\<close>

text \<open>
  Concrete environments on which the definitions are run: a template service that gives
  every request the same answer, and a model that replies by a script, one entry for
  each message sent.
\<close>

fun join_str :: "string \<Rightarrow> string list \<Rightarrow> string" where
  "join_str sep [] = []"
| "join_str sep [x] = x"
| "join_str sep (x # y # ys) = x @ sep @ join_str sep (y # ys)"

text \<open>
  Python's \<open>repr\<close> and \<open>str\<close> of a value, for strings that need no escaping.
\<close>

fun example_repr :: "pyval \<Rightarrow> string" where
  "example_repr PNone = ''None''"
| "example_repr (PBool b) = (if b then ''True'' else ''False'')"
| "example_repr (PNum i) = int_str i"
| "example_repr (PStr s) = CHR 0x27 # s @ [CHR 0x27]"
| "example_repr (PList vs) = ''['' @ join_str '', '' (map example_repr vs) @ '']''"
| "example_repr (PDict kvs) =
     ''{'' @ join_str '', '' (map (\<lambda>(k, v). CHR 0x27 # k @ [CHR 0x27] @ '': '' @ example_repr v) kvs) @ ''}''"

definition example_fmt :: "pyval \<Rightarrow> string" where
  "example_fmt v = (case v of PStr s \<Rightarrow> s | _ \<Rightarrow> example_repr v)"

definition scripted :: "(exn + response) list \<Rightarrow> message list \<Rightarrow> exn + response" where
  "scripted script sent =
     (case drop (length sent - 1) script of
        [] \<Rightarrow> Inl (PyException ''no reply'')
      | reply # _ \<Rightarrow> reply)"

definition example_env :: "string + http_response \<Rightarrow> (exn + response) list \<Rightarrow> env" where
  "example_env answer script =
     \<lparr>GEMINI_API_KEY = ''gemini-key'',
      TEMPLATE_EXCHANGE_API_KEY = ''template-key'',
      TEMPLATE_EXCHANGE_API_BASE_URL = ''https://templates.example'',
      fmt = example_fmt,
      http = (\<lambda>log req. answer),
      model = (\<lambda>k. scripted script)\<rparr>"

definition world0 :: world where
  "world0 = \<lparr>chat = [], requests = [], stdout = []\<rparr>"


definition text_reply :: "string \<Rightarrow> response" where
  "text_reply t = \<lparr>candidates = [[Part (Some t) (Some (FunctionCall [] []))]], text_attr = Some (Inr t)\<rparr>"

definition call_reply :: "string \<Rightarrow> pydict \<Rightarrow> response" where
  "call_reply function_name args =
     \<lparr>candidates = [[Part (Some []) (Some (FunctionCall function_name args))]],
      text_attr = Some (Inl (PyException ''the reply holds a function call''))\<rparr>"

definition not_found_service :: "string + http_response" where
  "not_found_service = Inr \<lparr>status_code = 404, resp_text = ''missing'', resp_json = None,
            json_error = ''Expecting value: line 1 column 1 (char 0)''\<rparr>"

text \<open>
  A model that asks for the handoff of session M5.S4, then for its summary, and fails when
  it is sent the second result; and a model that fails on the prompt.
\<close>

definition late_failing_model_env :: env where
  "late_failing_model_env =
     example_env not_found_service
       [Inr (call_reply ''get_template'' [(''session_id'', PStr ''M5.S4'')]),
        Inr (call_reply ''get_template'' [(''session_id'', PStr ''M5.S4''), (''template_type'', PStr ''summary'')]),
        Inl (PyException ''503 The model is overloaded.'')]"

definition unreachable_model_env :: env where
  "unreachable_model_env = example_env not_found_service [Inl (PyException ''401 API key not valid.'')]"

text \<open>
  A reply whose first part is text and whose second part is a function call, and a reply
  whose only part has no text.
\<close>

definition text_then_call_reply :: response where
  "text_then_call_reply =
     \<lparr>candidates =
        [[Part (Some ''Let me look that up.'') (Some (FunctionCall [] [])),
          Part (Some []) (Some (FunctionCall ''get_template'' [(''session_id'', PStr ''M5.S4'')]))]],
      text_attr = Some (Inl (PyException ''the reply holds a function call''))\<rparr>"

definition textless_reply :: response where
  "textless_reply =
     \<lparr>candidates = [[Part (Some []) (Some (FunctionCall [] []))]], text_attr = Some (Inr [])\<rparr>"

section \<open>The Remote Resource Client\<close>

text \<open>
  Claim C4. \<open>get_template\<close> makes one request and, when the service answers it: on
  status 200 it returns the decoded body; it raises \<open>TemplateNotFoundError\<close> exactly on
  status 404 and \<open>TemplateAuthenticationError\<close> exactly on status 401; on any other status
  outside 200..299 it raises \<open>TemplateAPIError\<close> with the status code and the body text in
  its message. The request log grows by the one request, so nothing is tried again.
\<close>

theorem get_template_outcomes:
  assumes "http E log (GET (TEMPLATE_EXCHANGE_API_BASE_URL E @ ''/api/templates/'' @ fmt E session_id)
                           [(''x-api-key'', TEMPLATE_EXCHANGE_API_KEY E)] [(''type'', template_type)]) = Inr r"
  shows "(status_code r = 200 \<and> resp_json r = Some body \<longrightarrow>
            fst (get_template E log session_id template_type) = Inr body)
       \<and> ((\<exists>m. fst (get_template E log session_id template_type) = Inl (TemplateNotFoundError m))
            \<longleftrightarrow> status_code r = 404)
       \<and> ((\<exists>m. fst (get_template E log session_id template_type) = Inl (TemplateAuthenticationError m))
            \<longleftrightarrow> status_code r = 401)
       \<and> (\<not> (200 \<le> status_code r \<and> status_code r \<le> 299) \<and> status_code r \<noteq> 404 \<and> status_code r \<noteq> 401 \<longrightarrow>
            fst (get_template E log session_id template_type) =
              Inl (TemplateAPIError (''API request failed with status '' @ int_str (status_code r) @ '': '' @ resp_text r)))
       \<and> snd (get_template E log session_id template_type) =
            log @ [GET (TEMPLATE_EXCHANGE_API_BASE_URL E @ ''/api/templates/'' @ fmt E session_id)
                       [(''x-api-key'', TEMPLATE_EXCHANGE_API_KEY E)] [(''type'', template_type)]]"
  using assms
  by (auto simp add: get_template_def send_request_def response_json_def Let_def split: option.splits)

theorem get_template_outcomes_witness:
  "fst (get_template
          (example_env (Inr \<lparr>status_code = 200, resp_text = ''{}'', resp_json = Some (PDict []), json_error = []\<rparr>) [])
          [] (PStr ''M5.S4'') (PStr ''handoff'')) = Inr (PDict [])
   \<and> (\<exists>m. fst (get_template
          (example_env (Inr \<lparr>status_code = 404, resp_text = ''missing'', resp_json = None,
            json_error = ''Expecting value: line 1 column 1 (char 0)''\<rparr>) [])
          [] (PStr ''M5.S4'') (PStr ''handoff'')) = Inl (TemplateNotFoundError m))
   \<and> (\<exists>m. fst (get_template
          (example_env (Inr \<lparr>status_code = 401, resp_text = ''denied'', resp_json = None,
            json_error = ''Expecting value: line 1 column 1 (char 0)''\<rparr>) [])
          [] (PStr ''M5.S4'') (PStr ''handoff'')) = Inl (TemplateAuthenticationError m))
   \<and> fst (get_template
          (example_env (Inr \<lparr>status_code = 503, resp_text = ''busy'', resp_json = None,
            json_error = ''Expecting value: line 1 column 1 (char 0)''\<rparr>) [])
          [] (PStr ''M5.S4'') (PStr ''handoff''))
       = Inl (TemplateAPIError ''API request failed with status 503: busy'')"
  using get_template_outcomes
          [of "example_env (Inr \<lparr>status_code = 200, resp_text = ''{}'', resp_json = Some (PDict []), json_error = []\<rparr>) []"
              "[]" "PStr ''M5.S4''" "PStr ''handoff''"
              "\<lparr>status_code = 200, resp_text = ''{}'', resp_json = Some (PDict []), json_error = []\<rparr>" "PDict []"]
        get_template_outcomes
          [of "example_env (Inr \<lparr>status_code = 404, resp_text = ''missing'', resp_json = None,
            json_error = ''Expecting value: line 1 column 1 (char 0)''\<rparr>) []"
              "[]" "PStr ''M5.S4''" "PStr ''handoff''"
              "\<lparr>status_code = 404, resp_text = ''missing'', resp_json = None,
            json_error = ''Expecting value: line 1 column 1 (char 0)''\<rparr>" "PNone"]
        get_template_outcomes
          [of "example_env (Inr \<lparr>status_code = 401, resp_text = ''denied'', resp_json = None,
            json_error = ''Expecting value: line 1 column 1 (char 0)''\<rparr>) []"
              "[]" "PStr ''M5.S4''" "PStr ''handoff''"
              "\<lparr>status_code = 401, resp_text = ''denied'', resp_json = None,
            json_error = ''Expecting value: line 1 column 1 (char 0)''\<rparr>" "PNone"]
        get_template_outcomes
          [of "example_env (Inr \<lparr>status_code = 503, resp_text = ''busy'', resp_json = None,
            json_error = ''Expecting value: line 1 column 1 (char 0)''\<rparr>) []"
              "[]" "PStr ''M5.S4''" "PStr ''handoff''"
              "\<lparr>status_code = 503, resp_text = ''busy'', resp_json = None,
            json_error = ''Expecting value: line 1 column 1 (char 0)''\<rparr>" "PNone"]
  by (simp add: example_env_def int_str_def digit_char_def)

text \<open>
  Claim C5. \<open>create_template\<close>, when the service answers its request: on status 201 it
  returns the decoded body; it raises \<open>TemplateAuthenticationError\<close> exactly on status 401;
  on any other status than 201 it raises \<open>TemplateAPIError\<close> with the status code and the
  body text in its message.
\<close>

theorem create_template_outcomes:
  assumes "http E log (POST (TEMPLATE_EXCHANGE_API_BASE_URL E @ ''/api/templates'')
                            [(''x-api-key'', TEMPLATE_EXCHANGE_API_KEY E), (''Content-Type'', ''application/json'')]
                            ([(''sessionId'', session_id), (''type'', template_type),
                              (''content'', content), (''status'', status)]
                             @ (if metadata \<noteq> PNone then [(''metadata'', metadata)] else []))) = Inr r"
  shows "(status_code r = 201 \<and> resp_json r = Some body \<longrightarrow>
            fst (create_template E log session_id template_type content status metadata) = Inr body)
       \<and> ((\<exists>m. fst (create_template E log session_id template_type content status metadata)
                  = Inl (TemplateAuthenticationError m))
            \<longleftrightarrow> status_code r = 401)
       \<and> (status_code r \<noteq> 201 \<and> status_code r \<noteq> 401 \<longrightarrow>
            fst (create_template E log session_id template_type content status metadata) =
              Inl (TemplateAPIError (''API request failed with status '' @ int_str (status_code r) @ '': '' @ resp_text r)))"
  using assms
  by (auto simp add: create_template_def send_request_def response_json_def Let_def
           split: option.splits if_splits)

theorem create_template_outcomes_witness:
  "fst (create_template
          (example_env (Inr \<lparr>status_code = 201, resp_text = ''{}'', resp_json = Some (PDict []), json_error = []\<rparr>) [])
          [] (PStr ''M5.S4'') (PStr ''summary'') (PStr ''Done.'') (PStr ''draft'') PNone) = Inr (PDict [])
   \<and> (\<exists>m. fst (create_template
          (example_env (Inr \<lparr>status_code = 401, resp_text = ''denied'', resp_json = None,
            json_error = ''Expecting value: line 1 column 1 (char 0)''\<rparr>) [])
          [] (PStr ''M5.S4'') (PStr ''summary'') (PStr ''Done.'') (PStr ''draft'') PNone)
        = Inl (TemplateAuthenticationError m))
   \<and> fst (create_template
          (example_env (Inr \<lparr>status_code = 400, resp_text = ''bad type'', resp_json = None,
            json_error = ''Expecting value: line 1 column 1 (char 0)''\<rparr>) [])
          [] (PStr ''M5.S4'') (PStr ''summary'') (PStr ''Done.'') (PStr ''draft'') PNone)
       = Inl (TemplateAPIError ''API request failed with status 400: bad type'')"
  using create_template_outcomes
          [of "example_env (Inr \<lparr>status_code = 201, resp_text = ''{}'', resp_json = Some (PDict []), json_error = []\<rparr>) []"
              "[]" "PStr ''M5.S4''" "PStr ''summary''" "PStr ''Done.''" "PStr ''draft''" PNone
              "\<lparr>status_code = 201, resp_text = ''{}'', resp_json = Some (PDict []), json_error = []\<rparr>" "PDict []"]
        create_template_outcomes
          [of "example_env (Inr \<lparr>status_code = 401, resp_text = ''denied'', resp_json = None,
            json_error = ''Expecting value: line 1 column 1 (char 0)''\<rparr>) []"
              "[]" "PStr ''M5.S4''" "PStr ''summary''" "PStr ''Done.''" "PStr ''draft''" PNone
              "\<lparr>status_code = 401, resp_text = ''denied'', resp_json = None,
            json_error = ''Expecting value: line 1 column 1 (char 0)''\<rparr>" PNone]
        create_template_outcomes
          [of "example_env (Inr \<lparr>status_code = 400, resp_text = ''bad type'', resp_json = None,
            json_error = ''Expecting value: line 1 column 1 (char 0)''\<rparr>) []"
              "[]" "PStr ''M5.S4''" "PStr ''summary''" "PStr ''Done.''" "PStr ''draft''" PNone
              "\<lparr>status_code = 400, resp_text = ''bad type'', resp_json = None,
            json_error = ''Expecting value: line 1 column 1 (char 0)''\<rparr>" PNone]
  by (simp add: example_env_def int_str_def digit_char_def)

text \<open>
  Claim C6. The body of the request of \<open>create_template\<close>: without metadata (\<open>None\<close>) it
  is exactly the four entries \<open>sessionId\<close>, \<open>type\<close>, \<open>content\<close> and \<open>status\<close>, with no
  \<open>metadata\<close> key; with metadata it is these four followed by the \<open>metadata\<close> entry,
  which holds the given metadata unchanged.
\<close>

theorem create_template_payload:
  "snd (create_template E log session_id template_type content status PNone) =
     log @ [POST (TEMPLATE_EXCHANGE_API_BASE_URL E @ ''/api/templates'')
                 [(''x-api-key'', TEMPLATE_EXCHANGE_API_KEY E), (''Content-Type'', ''application/json'')]
                 [(''sessionId'', session_id), (''type'', template_type),
                  (''content'', content), (''status'', status)]]
   \<and> (metadata \<noteq> PNone \<longrightarrow>
        snd (create_template E log session_id template_type content status metadata) =
          log @ [POST (TEMPLATE_EXCHANGE_API_BASE_URL E @ ''/api/templates'')
                      [(''x-api-key'', TEMPLATE_EXCHANGE_API_KEY E), (''Content-Type'', ''application/json'')]
                      [(''sessionId'', session_id), (''type'', template_type),
                       (''content'', content), (''status'', status), (''metadata'', metadata)]])"
  by (simp add: create_template_def send_request_def Let_def split: sum.splits)

theorem create_template_payload_witness:
  "PDict [(''tags'', PList [PStr ''x''])] \<noteq> PNone
   \<and> snd (create_template (example_env (Inl ''unreachable'') []) [] (PStr ''M5.S4'') (PStr ''summary'')
             (PStr ''Done.'') (PStr ''draft'') (PDict [(''tags'', PList [PStr ''x''])])) =
       [POST ''https://templates.example/api/templates''
             [(''x-api-key'', ''template-key''), (''Content-Type'', ''application/json'')]
             [(''sessionId'', PStr ''M5.S4''), (''type'', PStr ''summary''),
              (''content'', PStr ''Done.''), (''status'', PStr ''draft''),
              (''metadata'', PDict [(''tags'', PList [PStr ''x''])])]]"
  using create_template_payload
          [of "example_env (Inl ''unreachable'') []" "[]" "PStr ''M5.S4''" "PStr ''summary''"
              "PStr ''Done.''" "PStr ''draft''" "PDict [(''tags'', PList [PStr ''x''])]"]
  by (simp add: example_env_def)

section \<open>The Tool Registry: dispatch\<close>

text \<open>The definitions unfolded to run the program on the example environments.\<close>

lemmas example_defs =
  example_env_def not_found_service_def scripted_def call_reply_def text_reply_def world0_def
  example_fmt_def late_failing_model_env_def unreachable_model_env_def
  text_then_call_reply_def textless_reply_def

lemmas run_defs =
  respond_to_prompt_def send_message_def requested_call_def final_text_def print_def write_out_def
  dispatch_def get_template_def create_template_def send_request_def response_json_def
  dict_get_def dict_get_default_def

text \<open>The one request that each operation of the client makes.\<close>

lemma get_template_request:
  "snd (get_template E log session_id template_type) =
     log @ [GET (TEMPLATE_EXCHANGE_API_BASE_URL E @ ''/api/templates/'' @ fmt E session_id)
                [(''x-api-key'', TEMPLATE_EXCHANGE_API_KEY E)] [(''type'', template_type)]]"
  by (simp add: get_template_def send_request_def Let_def split: sum.splits)

lemma create_template_request:
  "snd (create_template E log session_id template_type content status metadata) =
     log @ [POST (TEMPLATE_EXCHANGE_API_BASE_URL E @ ''/api/templates'')
                 [(''x-api-key'', TEMPLATE_EXCHANGE_API_KEY E), (''Content-Type'', ''application/json'')]
                 ([(''sessionId'', session_id), (''type'', template_type),
                   (''content'', content), (''status'', status)]
                  @ (if metadata \<noteq> PNone then [(''metadata'', metadata)] else []))]"
  by (simp add: create_template_def send_request_def Let_def split: sum.splits)

text \<open>
  \<open>create_template\<close> never raises \<open>TemplateNotFoundError\<close>, so the branch of dispatch
  without an \<open>except\<close> clause for it wraps every outcome as the specification says.
\<close>

lemma create_template_not_found_free:
  "fst (create_template E log session_id template_type content status metadata) \<noteq> Inl (TemplateNotFoundError m)"
  by (simp add: create_template_def send_request_def response_json_def Let_def
           split: sum.splits option.splits)

lemma dispatch_get_template_refines:
  "tool_result_of (fst (dispatch E w ''get_template'' args)) =
     Some (spec_wrap ''get_template''
            (fst (get_template E (requests w) (dict_get args ''session_id'')
                    (dict_get_default args ''template_type'' (PStr ''handoff'')))))"
  by (simp add: dispatch_def tool_result_of_def Let_def split: prod.splits sum.splits exn.splits)

lemma dispatch_create_template_refines:
  "tool_result_of (fst (dispatch E w ''create_template'' args)) =
     Some (spec_wrap ''create_template''
            (fst (create_template E (requests w) (dict_get args ''session_id'')
                    (dict_get args ''template_type'') (dict_get args ''content'')
                    (dict_get_default args ''status'' (PStr ''draft'')) (dict_get args ''metadata''))))"
  using create_template_not_found_free
  apply (simp add: dispatch_def tool_result_of_def Let_def split: prod.splits sum.splits exn.splits)
  by (metis fst_conv)

lemma dispatch_get_template_requests:
  "requests (snd (dispatch E w ''get_template'' args)) =
     snd (get_template E (requests w) (dict_get args ''session_id'')
            (dict_get_default args ''template_type'' (PStr ''handoff'')))"
  by (simp add: dispatch_def Let_def split: prod.splits sum.splits exn.splits)

lemma dispatch_create_template_requests:
  "requests (snd (dispatch E w ''create_template'' args)) =
     snd (create_template E (requests w) (dict_get args ''session_id'')
            (dict_get args ''template_type'') (dict_get args ''content'')
            (dict_get_default args ''status'' (PStr ''draft'')) (dict_get args ''metadata''))"
  by (simp add: dispatch_def Let_def split: prod.splits sum.splits exn.splits)


lemma respond_loop_done:
  "requested_call r = Inr None \<Longrightarrow> respond_loop E k w r = Some (final_text r, w)"
  by (subst respond_loop.simps) simp

lemma respond_loop_raise:
  "requested_call r = Inl e \<Longrightarrow> respond_loop E k w r = Some (Inl e, w)"
  by (subst respond_loop.simps) simp

text \<open>
  Claim C2. For a request that names \<open>get_template\<close> or \<open>create_template\<close>, what dispatch
  builds is always a tool result, and it is the wrapping that the specification describes
  of the outcome of the client's call: \<open>Success\<close> with the payload, \<open>Failure\<close> with the
  client's message and kind (\<open>NotFound\<close>, \<open>AuthenticationFailed\<close>, \<open>RemoteError\<close>), and
  \<open>ClientExecutionError\<close> for any other exception. The loop then sends this result to the
  model as a \<open>FunctionResponse\<close> and goes on with the model's answer: a failure of the
  tool does not end the interaction.
\<close>

theorem dispatch_registered:
  assumes "function_name = ''get_template'' \<or> function_name = ''create_template''"
  shows "tool_result_of (fst (dispatch E w function_name args)) =
           Some (spec_wrap function_name
                  (fst (if function_name = ''get_template''
                        then get_template E (requests w) (dict_get args ''session_id'')
                               (dict_get_default args ''template_type'' (PStr ''handoff''))
                        else create_template E (requests w) (dict_get args ''session_id'')
                               (dict_get args ''template_type'') (dict_get args ''content'')
                               (dict_get_default args ''status'' (PStr ''draft''))
                               (dict_get args ''metadata''))))
       \<and> (requested_call r = Inr (Some (FunctionCall function_name args)) \<longrightarrow>
            respond_loop E k w r =
              (case dispatch E
                      (print w (''Gemini requested to call function: '' @ function_name
                                @ '' with args: '' @ fmt E (PDict args)))
                      function_name args of
                 (function_response_content, w') \<Rightarrow>
                   (case model E k (chat w' @ [FunctionResponse function_name function_response_content]) of
                      Inl e \<Rightarrow>
                        Some (Inl e, w'\<lparr>chat := chat w' @ [FunctionResponse function_name function_response_content]\<rparr>)
                    | Inr r' \<Rightarrow>
                        respond_loop E k
                          (w'\<lparr>chat := chat w' @ [FunctionResponse function_name function_response_content]\<rparr>) r')))"
proof (intro conjI impI)
  show "tool_result_of (fst (dispatch E w function_name args)) =
           Some (spec_wrap function_name
                  (fst (if function_name = ''get_template''
                        then get_template E (requests w) (dict_get args ''session_id'')
                               (dict_get_default args ''template_type'' (PStr ''handoff''))
                        else create_template E (requests w) (dict_get args ''session_id'')
                               (dict_get args ''template_type'') (dict_get args ''content'')
                               (dict_get_default args ''status'' (PStr ''draft''))
                               (dict_get args ''metadata''))))"
    using assms dispatch_get_template_refines dispatch_create_template_refines by auto
next
  assume call: "requested_call r = Inr (Some (FunctionCall function_name args))"
  show "respond_loop E k w r =
              (case dispatch E
                      (print w (''Gemini requested to call function: '' @ function_name
                                @ '' with args: '' @ fmt E (PDict args)))
                      function_name args of
                 (function_response_content, w') \<Rightarrow>
                   (case model E k (chat w' @ [FunctionResponse function_name function_response_content]) of
                      Inl e \<Rightarrow>
                        Some (Inl e, w'\<lparr>chat := chat w' @ [FunctionResponse function_name function_response_content]\<rparr>)
                    | Inr r' \<Rightarrow>
                        respond_loop E k
                          (w'\<lparr>chat := chat w' @ [FunctionResponse function_name function_response_content]\<rparr>) r'))"
    by (subst respond_loop.simps) (simp add: call send_message_def split: prod.splits)
qed

theorem dispatch_registered_witness:
  "tool_result_of (fst (dispatch (example_env not_found_service [])
                          world0 ''get_template'' [(''session_id'', PStr ''M5.S4'')]))
     = Some (Failure ''No handoff template found for session M5.S4'' NotFound)
   \<and> respond_loop
        (example_env not_found_service
           [Inr (call_reply ''get_template'' [(''session_id'', PStr ''M5.S4'')]),
            Inr (text_reply ''There is no handoff for M5.S4.'')])
        0 (world0\<lparr>chat := [UserText ''fetch the handoff for session M5.S4'']\<rparr>)
        (call_reply ''get_template'' [(''session_id'', PStr ''M5.S4'')])
     = Some (Inr ''There is no handoff for M5.S4.'',
        \<lparr>chat = [UserText ''fetch the handoff for session M5.S4'',
                  FunctionResponse ''get_template''
                    [(''error'', PStr ''No handoff template found for session M5.S4''),
                     (''type'', PStr ''TemplateNotFound'')]],
          requests = [GET ''https://templates.example/api/templates/M5.S4''
                          [(''x-api-key'', ''template-key'')] [(''type'', PStr ''handoff'')]],
          stdout = [''Gemini requested to call function: get_template with args: {'session_id': 'M5.S4'}'' @ [newline]]\<rparr>)"
  using dispatch_registered
          [of "''get_template''" "example_env not_found_service []" world0 "[(''session_id'', PStr ''M5.S4'')]"
              "call_reply ''get_template'' [(''session_id'', PStr ''M5.S4'')]" 0]
        dispatch_registered
          [of "''get_template''"
              "example_env not_found_service
                 [Inr (call_reply ''get_template'' [(''session_id'', PStr ''M5.S4'')]),
                  Inr (text_reply ''There is no handoff for M5.S4.'')]"
              "world0\<lparr>chat := [UserText ''fetch the handoff for session M5.S4'']\<rparr>"
              "[(''session_id'', PStr ''M5.S4'')]"
              "call_reply ''get_template'' [(''session_id'', PStr ''M5.S4'')]" 0]
  by (simp add: dispatch_def get_template_def send_request_def example_env_def not_found_service_def
      dict_get_def dict_get_default_def example_fmt_def world0_def call_reply_def text_reply_def
      requested_call_def respond_loop_done final_text_def scripted_def print_def)

text \<open>
  Claim C3. For a name that is neither \<open>get_template\<close> nor \<open>create_template\<close>, dispatch
  builds the failure that carries only the message naming the function, which is the tool
  result of kind \<open>UnknownTool\<close>, and the log of HTTP requests is unchanged: the client is
  not called.
\<close>

theorem dispatch_unknown_tool:
  assumes "function_name \<noteq> ''get_template''" and "function_name \<noteq> ''create_template''"
  shows "fst (dispatch E w function_name args) =
           [(''error'', PStr (''Function '' @ function_name @ '' is not implemented or recognized.''))]
       \<and> tool_result_of (fst (dispatch E w function_name args)) =
           Some (Failure (''Function '' @ function_name @ '' is not implemented or recognized.'') UnknownTool)
       \<and> requests (snd (dispatch E w function_name args)) = requests w"
  using assms by (simp add: dispatch_def tool_result_of_def print_def)

theorem dispatch_unknown_tool_witness:
  "fst (dispatch (example_env (Inl ''unreachable'') []) world0 ''delete_template'' [(''session_id'', PStr ''M5.S4'')]) =
     [(''error'', PStr ''Function delete_template is not implemented or recognized.'')]
   \<and> requests (snd (dispatch (example_env (Inl ''unreachable'') []) world0 ''delete_template''
                      [(''session_id'', PStr ''M5.S4'')])) = []"
  using dispatch_unknown_tool
          [of "''delete_template''" "example_env (Inl ''unreachable'') []" world0 "[(''session_id'', PStr ''M5.S4'')]"]
  by (simp add: world0_def)

text \<open>
  Claim C8. A \<open>get_template\<close> request without \<open>template_type\<close> has the outcome and makes
  the HTTP request of the client called with \<open>handoff\<close>; a \<open>create_template\<close> request
  without \<open>status\<close> those of the client called with \<open>draft\<close>; a value that the request
  gives for either argument is the one the client is called with.
\<close>

theorem dispatch_defaults:
  "(map_of args ''template_type'' = None \<longrightarrow>
      tool_result_of (fst (dispatch E w ''get_template'' args)) =
        Some (spec_wrap ''get_template''
               (fst (get_template E (requests w) (dict_get args ''session_id'') (PStr ''handoff'')))) \<and>
      requests (snd (dispatch E w ''get_template'' args)) =
        snd (get_template E (requests w) (dict_get args ''session_id'') (PStr ''handoff'')))
   \<and> (map_of args ''template_type'' = Some v \<longrightarrow>
      tool_result_of (fst (dispatch E w ''get_template'' args)) =
        Some (spec_wrap ''get_template''
               (fst (get_template E (requests w) (dict_get args ''session_id'') v))) \<and>
      requests (snd (dispatch E w ''get_template'' args)) =
        snd (get_template E (requests w) (dict_get args ''session_id'') v))
   \<and> (map_of args ''status'' = None \<longrightarrow>
      tool_result_of (fst (dispatch E w ''create_template'' args)) =
        Some (spec_wrap ''create_template''
               (fst (create_template E (requests w) (dict_get args ''session_id'')
                       (dict_get args ''template_type'') (dict_get args ''content'')
                       (PStr ''draft'') (dict_get args ''metadata'')))) \<and>
      requests (snd (dispatch E w ''create_template'' args)) =
        snd (create_template E (requests w) (dict_get args ''session_id'')
               (dict_get args ''template_type'') (dict_get args ''content'')
               (PStr ''draft'') (dict_get args ''metadata'')))
   \<and> (map_of args ''status'' = Some v \<longrightarrow>
      tool_result_of (fst (dispatch E w ''create_template'' args)) =
        Some (spec_wrap ''create_template''
               (fst (create_template E (requests w) (dict_get args ''session_id'')
                       (dict_get args ''template_type'') (dict_get args ''content'')
                       v (dict_get args ''metadata'')))) \<and>
      requests (snd (dispatch E w ''create_template'' args)) =
        snd (create_template E (requests w) (dict_get args ''session_id'')
               (dict_get args ''template_type'') (dict_get args ''content'')
               v (dict_get args ''metadata'')))"
  by (simp add: dispatch_get_template_refines dispatch_create_template_refines
        dispatch_get_template_requests dispatch_create_template_requests dict_get_default_def)

theorem dispatch_defaults_witness:
  "requests (snd (dispatch (example_env (Inl ''offline'') []) world0 ''get_template''
                    [(''session_id'', PStr ''M5.S4'')])) =
     [GET ''https://templates.example/api/templates/M5.S4''
          [(''x-api-key'', ''template-key'')] [(''type'', PStr ''handoff'')]]
   \<and> requests (snd (dispatch (example_env (Inl ''offline'') []) world0 ''get_template''
                    [(''session_id'', PStr ''M5.S4''), (''template_type'', PStr ''summary'')])) =
     [GET ''https://templates.example/api/templates/M5.S4''
          [(''x-api-key'', ''template-key'')] [(''type'', PStr ''summary'')]]
   \<and> requests (snd (dispatch (example_env (Inl ''offline'') []) world0 ''create_template''
                    [(''session_id'', PStr ''M5.S4''), (''template_type'', PStr ''summary''),
                     (''content'', PStr ''Done.'')])) =
     [POST ''https://templates.example/api/templates''
           [(''x-api-key'', ''template-key''), (''Content-Type'', ''application/json'')]
           [(''sessionId'', PStr ''M5.S4''), (''type'', PStr ''summary''),
            (''content'', PStr ''Done.''), (''status'', PStr ''draft'')]]
   \<and> requests (snd (dispatch (example_env (Inl ''offline'') []) world0 ''create_template''
                    [(''session_id'', PStr ''M5.S4''), (''template_type'', PStr ''summary''),
                     (''content'', PStr ''Done.''), (''status'', PStr ''active'')])) =
     [POST ''https://templates.example/api/templates''
           [(''x-api-key'', ''template-key''), (''Content-Type'', ''application/json'')]
           [(''sessionId'', PStr ''M5.S4''), (''type'', PStr ''summary''),
            (''content'', PStr ''Done.''), (''status'', PStr ''active'')]]"
  using dispatch_defaults
          [of "[(''session_id'', PStr ''M5.S4'')]" "example_env (Inl ''offline'') []" world0 PNone]
        dispatch_defaults
          [of "[(''session_id'', PStr ''M5.S4''), (''template_type'', PStr ''summary'')]"
              "example_env (Inl ''offline'') []" world0 "PStr ''summary''"]
        dispatch_defaults
          [of "[(''session_id'', PStr ''M5.S4''), (''template_type'', PStr ''summary''),
                (''content'', PStr ''Done.'')]"
              "example_env (Inl ''offline'') []" world0 PNone]
        dispatch_defaults
          [of "[(''session_id'', PStr ''M5.S4''), (''template_type'', PStr ''summary''),
                (''content'', PStr ''Done.''), (''status'', PStr ''active'')]"
              "example_env (Inl ''offline'') []" world0 "PStr ''active''"]
  by (simp add: get_template_request create_template_request dict_get_def example_env_def
        example_fmt_def world0_def)

text \<open>
  Claim C10. Dispatch does not check the required arguments. A \<open>get_template\<close> request
  without \<open>session_id\<close> calls the client with \<open>None\<close> for it, and the HTTP request is
  made; a \<open>create_template\<close> request without \<open>session_id\<close>, \<open>template_type\<close> or \<open>content\<close>
  makes the HTTP request whose body holds \<open>None\<close> for each missing one.
\<close>

theorem dispatch_forwards_missing_arguments:
  "(map_of args ''session_id'' = None \<longrightarrow>
      requests (snd (dispatch E w ''get_template'' args)) =
        requests w @ [GET (TEMPLATE_EXCHANGE_API_BASE_URL E @ ''/api/templates/'' @ fmt E PNone)
                          [(''x-api-key'', TEMPLATE_EXCHANGE_API_KEY E)]
                          [(''type'', dict_get_default args ''template_type'' (PStr ''handoff''))]] \<and>
      tool_result_of (fst (dispatch E w ''get_template'' args)) =
        Some (spec_wrap ''get_template''
               (fst (get_template E (requests w) PNone
                       (dict_get_default args ''template_type'' (PStr ''handoff''))))))
   \<and> (map_of args ''session_id'' = None \<or> map_of args ''template_type'' = None
        \<or> map_of args ''content'' = None \<longrightarrow>
      requests (snd (dispatch E w ''create_template'' args)) =
        requests w @ [POST (TEMPLATE_EXCHANGE_API_BASE_URL E @ ''/api/templates'')
                        [(''x-api-key'', TEMPLATE_EXCHANGE_API_KEY E), (''Content-Type'', ''application/json'')]
                        ([(''sessionId'', case map_of args ''session_id'' of None \<Rightarrow> PNone | Some v \<Rightarrow> v),
                          (''type'', case map_of args ''template_type'' of None \<Rightarrow> PNone | Some v \<Rightarrow> v),
                          (''content'', case map_of args ''content'' of None \<Rightarrow> PNone | Some v \<Rightarrow> v),
                          (''status'', dict_get_default args ''status'' (PStr ''draft''))]
                         @ (if dict_get args ''metadata'' \<noteq> PNone
                            then [(''metadata'', dict_get args ''metadata'')] else []))])"
  by (simp add: dispatch_get_template_refines dispatch_get_template_requests
        dispatch_create_template_requests get_template_request create_template_request dict_get_def)

theorem dispatch_forwards_missing_arguments_witness:
  "requests (snd (dispatch (example_env (Inl ''offline'') []) world0 ''get_template'' [])) =
     [GET ''https://templates.example/api/templates/None''
          [(''x-api-key'', ''template-key'')] [(''type'', PStr ''handoff'')]]
   \<and> requests (snd (dispatch (example_env (Inl ''offline'') []) world0 ''create_template''
                    [(''session_id'', PStr ''M5.S4'')])) =
     [POST ''https://templates.example/api/templates''
           [(''x-api-key'', ''template-key''), (''Content-Type'', ''application/json'')]
           [(''sessionId'', PStr ''M5.S4''), (''type'', PNone), (''content'', PNone),
            (''status'', PStr ''draft'')]]"
  using dispatch_forwards_missing_arguments [of "[]" "example_env (Inl ''offline'') []" world0]
        dispatch_forwards_missing_arguments
          [of "[(''session_id'', PStr ''M5.S4'')]" "example_env (Inl ''offline'') []" world0]
  by (simp add: dict_get_def dict_get_default_def example_env_def example_fmt_def world0_def)

section \<open>The Conversation Orchestrator\<close>








text \<open>
  Claim C1, at a reply whose first part is text and whose second part asks for
  \<open>get_template\<close>: the loop's condition reads the first part only, so the interaction ends
  with the text of the reply; the call is not dispatched (no HTTP request is made) and
  nothing is sent back to the model.
\<close>

theorem call_after_text_not_dispatched:
  "respond_to_prompt (example_env not_found_service [Inr text_then_call_reply]) 0 world0
     ''fetch the handoff for session M5.S4'' =
   Some (Inr ''Let me look that up.'',
     \<lparr>chat = [UserText ''fetch the handoff for session M5.S4''], requests = [], stdout = []\<rparr>)"
  by (simp add: example_defs run_defs respond_loop_done)

text \<open>
  The fallback sentence is returned for a reply without parts whose \<open>text\<close> attribute is
  absent or empty; an exception of the attribute's accessor is raised on.
\<close>

lemma final_text_without_parts:
  "candidates r = [] # cs \<Longrightarrow> text_attr r = None \<or> text_attr r = Some (Inr []) \<Longrightarrow>
   final_text r = Inr fallback_text"
  by (auto simp add: final_text_def)

lemma final_text_accessor_raises:
  "candidates r = [] # cs \<Longrightarrow> text_attr r = Some (Inl e) \<Longrightarrow> final_text r = Inl e"
  by (simp add: final_text_def)

text \<open>
  Claim C7, at a reply without a function call whose only part has empty text: the parts
  are not empty, so the texts of the parts are joined and the interaction returns the empty
  string, not the fallback sentence.
\<close>

theorem textless_reply_gives_empty_string:
  "respond_to_prompt (example_env not_found_service [Inr textless_reply]) 0 world0 ''hello'' =
   Some (Inr [], \<lparr>chat = [UserText ''hello''], requests = [], stdout = []\<rparr>)"
  by (simp add: example_defs run_defs respond_loop_done)

end
